theory Spec2Isabelle
  imports Main
begin

section \<open>The transcript analyzer (src/python/analyzer.py)\<close>

text \<open>
  The program is three functions: \<open>load_messages\<close> reads a JSON Lines file into a list
  of parsed values, \<open>summarize\<close> renders that list as a Markdown text, and \<open>main\<close>
  checks the command line, runs the two and writes \<open>summary.md\<close>.

  What the program takes from Python's standard library is not part of the repository.
  It enters the model as follows.
  \<^item> \<open>json.loads\<close> is a parameter \<open>loads\<close> of type \<open>str \<Rightarrow> json option\<close>: \<open>None\<close> is
    \<open>json.JSONDecodeError\<close>, which the library documents as its answer to a text that is
    not a valid JSON document, and which is the only exception the loader catches.
  \<^item> \<open>repr\<close> of a Python \<open>str\<close> (needed only when a list or a dict is printed) is a
    parameter \<open>repr_str\<close>.
  \<^item> \<open>pathlib\<close> is a record of operations on an abstract type of paths.
  \<^item> The file system is a map from paths to nodes; the content of a regular file is the
    text that reading in text mode with encoding UTF-8 delivers (decoded, line ends
    as \<open>\<newline>\<close>). Failures of the operating system (permissions, a full disk), of
    the decoder and of the encoding of standard output are outside the model.
  \<^item> A run ends with \<open>sys.exit\<close> (\<open>Exit\<close> and the status) or with an exception that
    nothing catches (\<open>Raised\<close>; the interpreter then prints a traceback and the process
    status is 1).
\<close>

subsection \<open>Python strings\<close>

text \<open>A Python \<open>str\<close> is a sequence of Unicode code points.\<close>

type_synonym codepoint = nat
type_synonym str = "codepoint list"

abbreviation (input) lit :: "string \<Rightarrow> str" where
  "lit s \<equiv> map of_char s"

text \<open>
  \<open>str.isspace\<close> on one character, that is the set of characters \<open>str.strip()\<close> removes:
  U+0009..U+000D, U+001C..U+0020, U+0085, U+00A0, U+1680, U+2000..U+200A, U+2028, U+2029,
  U+202F, U+205F, U+3000.
\<close>

definition isspace :: "codepoint \<Rightarrow> bool" where
  "isspace c \<longleftrightarrow>
     (9 \<le> c \<and> c \<le> 13) \<or> (28 \<le> c \<and> c \<le> 32) \<or> c = 133 \<or> c = 160 \<or> c = 5760 \<or>
     (8192 \<le> c \<and> c \<le> 8202) \<or> c = 8232 \<or> c = 8233 \<or> c = 8239 \<or> c = 8287 \<or> c = 12288"

definition strip :: "str \<Rightarrow> str" where
  "strip s = rev (dropWhile isspace (rev (dropWhile isspace s)))"

text \<open>
  Iterating over a file opened in text mode yields its lines, each with its terminating
  \<open>\<newline>\<close> (code point 10), the last one without if the file does not end in one.
\<close>

fun file_lines :: "str \<Rightarrow> str list" where
  "file_lines [] = []"
| "file_lines (c # cs) =
     (if c = 10 then [c] # file_lines cs
      else (case file_lines cs of [] \<Rightarrow> [[c]] | l # ls \<Rightarrow> (c # l) # ls))"

subsection \<open>JSON values as Python objects\<close>

text \<open>
  What \<open>json.loads\<close> returns: \<open>None\<close>, a \<open>bool\<close>, an \<open>int\<close>, a \<open>float\<close>, a \<open>str\<close>,
  a \<open>list\<close> or a \<open>dict\<close> with \<open>str\<close> keys (in insertion order). The program only prints
  a float and compares it with a \<open>str\<close>, so a float is carried by its \<open>repr\<close>.
\<close>

datatype json =
    JNull
  | JBool bool
  | JInt int
  | JFloat str
  | JStr str
  | JList "json list"
  | JDict "(str \<times> json) list"

datatype py_error =
    AttributeError
  | FileNotFoundError
  | IsADirectoryError
  | UnicodeEncodeError

subsection \<open>The file system\<close>

datatype node = RegularFile str | Directory

type_synonym 'p filesystem = "'p \<Rightarrow> node option"

text \<open>\<open>path.open("r", encoding="utf-8")\<close>, as the lines the opened file yields.\<close>

definition open_r :: "'p filesystem \<Rightarrow> 'p \<Rightarrow> py_error + str list" where
  "open_r fs p =
     (case fs p of
        None \<Rightarrow> Inl FileNotFoundError
      | Some Directory \<Rightarrow> Inl IsADirectoryError
      | Some (RegularFile content) \<Rightarrow> Inr (file_lines content))"

subsection \<open>load_messages\<close>

text \<open>
  The body of \<open>for line in f\<close>, with the list \<open>messages\<close> as accumulator: strip the line,
  \<open>continue\<close> on an empty one, append what \<open>json.loads\<close> returns, \<open>continue\<close> on
  \<open>JSONDecodeError\<close>.
\<close>

fun load_loop :: "(str \<Rightarrow> json option) \<Rightarrow> str list \<Rightarrow> json list \<Rightarrow> json list" where
  "load_loop loads [] messages = messages"
| "load_loop loads (line # f) messages =
     (let line' = strip line in
      if line' = [] then load_loop loads f messages
      else (case loads line' of
              Some v \<Rightarrow> load_loop loads f (messages @ [v])
            | None \<Rightarrow> load_loop loads f messages))"

definition load_messages ::
  "(str \<Rightarrow> json option) \<Rightarrow> 'p filesystem \<Rightarrow> 'p \<Rightarrow> py_error + json list" where
  "load_messages loads fs jsonl_path =
     (case open_r fs jsonl_path of
        Inl e \<Rightarrow> Inl e
      | Inr f \<Rightarrow> Inr (load_loop loads f []))"


subsection \<open>summarize\<close>

text \<open>
  \<open>m.get(key, dflt)\<close>: the method of a \<open>dict\<close>. No other value \<open>json.loads\<close> returns
  has an attribute \<open>get\<close>, and the attribute lookup raises \<open>AttributeError\<close>.
\<close>

fun dict_get :: "json \<Rightarrow> str \<Rightarrow> json \<Rightarrow> py_error + json" where
  "dict_get (JDict kvs) key dflt =
     Inr (case map_of kvs key of Some v \<Rightarrow> v | None \<Rightarrow> dflt)"
| "dict_get m key dflt = Inl AttributeError"

text \<open>\<open>str(n)\<close> of a non-negative \<open>int\<close> (code point 48 is the digit 0), and of any \<open>int\<close>.\<close>

fun str_nat :: "nat \<Rightarrow> str" where
  "str_nat n = (if n < 10 then [48 + n] else str_nat (n div 10) @ [48 + n mod 10])"

declare str_nat.simps [simp del]

definition str_int :: "int \<Rightarrow> str" where
  "str_int i = (if i < 0 then 45 # str_nat (nat (- i)) else str_nat (nat i))"

text \<open>\<open>sep.join(xs)\<close>.\<close>

fun join :: "str \<Rightarrow> str list \<Rightarrow> str" where
  "join sep [] = []"
| "join sep [x] = x"
| "join sep (x # y # ys) = x @ sep @ join sep (y # ys)"

text \<open>
  \<open>repr(v)\<close>, and \<open>str(v)\<close>, which is what the f-string \<open>f"{v}"\<close> inserts: a \<open>str\<close> as it
  is, any other value by its \<open>repr\<close>.
\<close>

fun py_repr :: "(str \<Rightarrow> str) \<Rightarrow> json \<Rightarrow> str" where
  "py_repr repr_str JNull = lit ''None''"
| "py_repr repr_str (JBool b) = (if b then lit ''True'' else lit ''False'')"
| "py_repr repr_str (JInt i) = str_int i"
| "py_repr repr_str (JFloat r) = r"
| "py_repr repr_str (JStr s) = repr_str s"
| "py_repr repr_str (JList xs) =
     lit ''['' @ join (lit '', '') (map (py_repr repr_str) xs) @ lit '']''"
| "py_repr repr_str (JDict kvs) =
     lit ''{'' @
     join (lit '', '')
       (map (\<lambda>kv. repr_str (fst kv) @ lit '': '' @ py_repr repr_str (snd kv)) kvs) @
     lit ''}''"

definition py_str :: "(str \<Rightarrow> str) \<Rightarrow> json \<Rightarrow> str" where
  "py_str repr_str v = (case v of JStr s \<Rightarrow> s | _ \<Rightarrow> py_repr repr_str v)"

text \<open>
  \<open>sum(1 for m in messages if m.get("role") == role)\<close>. \<open>m.get("role")\<close> is \<open>None\<close> when
  the key is absent; \<open>==\<close> between a \<open>str\<close> and a value of another type is \<open>False\<close>.
\<close>

fun count_role :: "str \<Rightarrow> json list \<Rightarrow> py_error + nat" where
  "count_role role [] = Inr 0"
| "count_role role (m # ms) =
     (case dict_get m (lit ''role'') JNull of
        Inl e \<Rightarrow> Inl e
      | Inr r \<Rightarrow>
          (case count_role role ms of
             Inl e \<Rightarrow> Inl e
           | Inr n \<Rightarrow> Inr ((if r = JStr role then 1 else 0) + n)))"

definition summarize :: "(str \<Rightarrow> str) \<Rightarrow> json list \<Rightarrow> py_error + str" where
  "summarize repr_str messages =
     (let total = length messages in
      if total = 0 then Inr (lit ''# Analysis\<newline>\<newline>No messages found.'')
      else
        (case (if messages \<noteq> [] then dict_get (hd messages) (lit ''text'') (JStr [])
               else Inr (JStr [])) of
           Inl e \<Rightarrow> Inl e
         | Inr first \<Rightarrow>
        (case (if messages \<noteq> [] then dict_get (last messages) (lit ''text'') (JStr [])
               else Inr (JStr [])) of
           Inl e \<Rightarrow> Inl e
         | Inr last' \<Rightarrow>
        (case count_role (lit ''user'') messages of
           Inl e \<Rightarrow> Inl e
         | Inr users \<Rightarrow>
        (case count_role (lit ''char'') messages of
           Inl e \<Rightarrow> Inl e
         | Inr chars \<Rightarrow>
             Inr (lit ''# Analysis\<newline>\<newline>'' @
                  lit ''Total messages: '' @ str_nat total @ lit ''\<newline>\<newline>'' @
                  lit ''User messages: '' @ str_nat users @ lit ''\<newline>'' @
                  lit ''Character messages: '' @ str_nat chars @ lit ''\<newline>\<newline>'' @
                  lit ''## First message\<newline>'' @
                  py_str repr_str first @ lit ''\<newline>\<newline>'' @
                  lit ''## Last message\<newline>'' @
                  py_str repr_str last' @ lit ''\<newline>''))))))"

subsection \<open>main\<close>

text \<open>The operations of \<open>pathlib\<close> that \<open>main\<close> uses; \<open>joinpath\<close> is the operator \<open>/\<close>.\<close>

record 'p pathlib =
  Path :: "str \<Rightarrow> 'p"
  expanduser :: "'p \<Rightarrow> 'p"
  parent :: "'p \<Rightarrow> 'p"
  joinpath :: "'p \<Rightarrow> str \<Rightarrow> 'p"
  path_str :: "'p \<Rightarrow> str"

definition exists :: "'p filesystem \<Rightarrow> 'p \<Rightarrow> bool" where
  "exists fs p \<longleftrightarrow> fs p \<noteq> None"

text \<open>
  UTF-8 encodes every code point but the surrogates U+D800..U+DFFF, which a JSON escape
  can bring into a \<open>str\<close>.
\<close>

definition utf8_encodable :: "str \<Rightarrow> bool" where
  "utf8_encodable s = list_all (\<lambda>c. c < 55296 \<or> 57343 < c) s"

text \<open>
  \<open>path.write_text(data, encoding="utf-8")\<close>: open for writing, which fails on a directory
  and otherwise creates or truncates the file, then encode and write.
\<close>

definition write_text ::
  "'p filesystem \<Rightarrow> 'p \<Rightarrow> str \<Rightarrow> py_error option \<times> 'p filesystem" where
  "write_text fs p data =
     (case fs p of
        Some Directory \<Rightarrow> (Some IsADirectoryError, fs)
      | _ \<Rightarrow>
          if utf8_encodable data then (None, fs(p \<mapsto> RegularFile data))
          else (Some UnicodeEncodeError, fs(p \<mapsto> RegularFile [])))"

text \<open>What a run can see and change: the file system and standard output.\<close>

record 'p world =
  fs :: "'p filesystem"
  stdout :: str

datatype outcome = Exit int | Raised py_error

text \<open>\<open>print(s)\<close> writes \<open>s\<close> and a newline.\<close>

definition print :: "str \<Rightarrow> 'p world \<Rightarrow> 'p world" where
  "print s w = w\<lparr>stdout := stdout w @ s @ [10]\<rparr>"

text \<open>\<open>argv\<close> is \<open>sys.argv\<close>: the script's name, then the arguments.\<close>

definition main ::
  "'p pathlib \<Rightarrow> (str \<Rightarrow> json option) \<Rightarrow> (str \<Rightarrow> str) \<Rightarrow> str list \<Rightarrow> 'p world \<Rightarrow>
   outcome \<times> 'p world" where
  "main pl loads repr_str argv w =
     (if length argv < 2 then
        (Exit 1, print (lit ''Usage: python analyzer.py <transcript.jsonl>'') w)
      else
        let jsonl_path = expanduser pl (Path pl (argv ! 1)) in
        if \<not> exists (fs w) jsonl_path then
          (Exit 2, print (lit ''File not found: '' @ path_str pl jsonl_path) w)
        else
          (case load_messages loads (fs w) jsonl_path of
             Inl e \<Rightarrow> (Raised e, w)
           | Inr messages \<Rightarrow>
          (case summarize repr_str messages of
             Inl e \<Rightarrow> (Raised e, w)
           | Inr summary \<Rightarrow>
               let out_dir = parent pl jsonl_path;
                   summary_path = joinpath pl out_dir (lit ''summary.md'')
               in (case write_text (fs w) summary_path summary of
                     (Some e, fs') \<Rightarrow> (Raised e, w\<lparr>fs := fs'\<rparr>)
                   | (None, fs') \<Rightarrow>
                       (Exit 0,
                        print (lit ''Wrote summary to '' @ path_str pl summary_path)
                          (w\<lparr>fs := fs'\<rparr>))))))"


subsection \<open>Notions of the specification\<close>

text \<open>
  A record in the sense of the specification's data model (a mapping from string keys to
  JSON values) is a \<open>dict\<close>; \<open>field m key\<close> is the value of its field \<open>key\<close>, if it has one.
\<close>

fun is_dict :: "json \<Rightarrow> bool" where
  "is_dict (JDict kvs) = True"
| "is_dict m = False"

fun field :: "json \<Rightarrow> str \<Rightarrow> json option" where
  "field (JDict kvs) key = map_of kvs key"
| "field m key = None"

text \<open>
  The text of a record as the summary shows it: the empty string if the record has no
  field \<open>text\<close>, else the value of the field as \<open>str\<close> prints it (a string as it is).
  The number of records whose field \<open>role\<close> is the string \<open>role\<close>.
\<close>

definition text_of :: "(str \<Rightarrow> str) \<Rightarrow> json \<Rightarrow> str" where
  "text_of repr_str m =
     (case field m (lit ''text'') of None \<Rightarrow> [] | Some v \<Rightarrow> py_str repr_str v)"

definition role_count :: "str \<Rightarrow> json list \<Rightarrow> nat" where
  "role_count role ms =
     length (filter (\<lambda>m. field m (lit ''role'') = Some (JStr role)) ms)"


text \<open>
  The two templates of section 4.3 of the specification, line by line: every line of the
  non-empty template ends in a newline, the empty one has none after its last line.
\<close>

definition spec_empty :: str where
  "spec_empty = join [10] [lit ''# Analysis'', [], lit ''No messages found.'']"

definition spec_template :: "nat \<Rightarrow> nat \<Rightarrow> nat \<Rightarrow> str \<Rightarrow> str \<Rightarrow> str" where
  "spec_template total_count user_count char_count first_text last_text =
     concat (map (\<lambda>l. l @ [10])
       [lit ''# Analysis'',
        [],
        lit ''Total messages: '' @ str_nat total_count,
        [],
        lit ''User messages: '' @ str_nat user_count,
        lit ''Character messages: '' @ str_nat char_count,
        [],
        lit ''## First message'',
        first_text,
        [],
        lit ''## Last message'',
        last_text])"

subsection \<open>Instances of the library parameters\<close>

text \<open>
  The theorems below hold for every \<open>loads\<close>, \<open>repr_str\<close> and \<open>pathlib\<close>. To run the
  program on concrete inputs, here is one instance of each. \<open>mini_loads\<close> reads a
  fragment of JSON as \<open>json.loads\<close> does: \<open>null\<close>, \<open>true\<close>, \<open>false\<close>, integers, strings
  without escapes, arrays and objects (of a repeated key the last value, at the place of
  the first); it answers \<open>None\<close> to everything else. Its first argument bounds the
  number of nested calls.
\<close>

definition json_ws :: "codepoint \<Rightarrow> bool" where
  "json_ws c \<longleftrightarrow> c = 32 \<or> c = 9 \<or> c = 10 \<or> c = 13"

definition is_digit :: "codepoint \<Rightarrow> bool" where
  "is_digit c \<longleftrightarrow> 48 \<le> c \<and> c \<le> 57"

fun scan_string :: "str \<Rightarrow> (str \<times> str) option" where
  "scan_string [] = None"
| "scan_string (c # cs) =
     (if c = 34 then Some ([], cs)
      else if c = 92 \<or> c < 32 then None
      else (case scan_string cs of
              None \<Rightarrow> None
            | Some (s, r) \<Rightarrow> Some (c # s, r)))"

definition scan_int :: "str \<Rightarrow> (json \<times> str) option" where
  "scan_int cs =
     (let neg = (cs \<noteq> [] \<and> hd cs = 45);
          body = (if neg then tl cs else cs);
          ds = takeWhile is_digit body;
          r = dropWhile is_digit body;
          n = foldl (\<lambda>a d. 10 * a + int (d - 48)) 0 ds
      in if ds = [] \<or> (1 < length ds \<and> hd ds = 48) then None
         else if r \<noteq> [] \<and> (hd r = 46 \<or> hd r = 101 \<or> hd r = 69) then None
         else Some (JInt (if neg then - n else n), r))"

fun dict_set :: "(str \<times> json) list \<Rightarrow> str \<Rightarrow> json \<Rightarrow> (str \<times> json) list" where
  "dict_set [] k v = [(k, v)]"
| "dict_set ((k', v') # kvs) k v =
     (if k' = k then (k, v) # kvs else (k', v') # dict_set kvs k v)"

fun parse_value :: "unit list \<Rightarrow> str \<Rightarrow> (json \<times> str) option"
and parse_elements :: "unit list \<Rightarrow> str \<Rightarrow> json list \<Rightarrow> (json \<times> str) option"
and parse_members :: "unit list \<Rightarrow> str \<Rightarrow> (str \<times> json) list \<Rightarrow> (json \<times> str) option"
where
  "parse_value [] cs = None"
| "parse_value (u # fuel) cs =
     (case dropWhile json_ws cs of
        [] \<Rightarrow> None
      | c # r \<Rightarrow>
          if c = 123 then
            (case dropWhile json_ws r of
               [] \<Rightarrow> None
             | c' # r' \<Rightarrow> if c' = 125 then Some (JDict [], r') else parse_members fuel r [])
          else if c = 91 then
            (case dropWhile json_ws r of
               [] \<Rightarrow> None
             | c' # r' \<Rightarrow> if c' = 93 then Some (JList [], r') else parse_elements fuel r [])
          else if c = 34 then
            (case scan_string r of None \<Rightarrow> None | Some (s, r') \<Rightarrow> Some (JStr s, r'))
          else if take 4 (c # r) = lit ''null'' then Some (JNull, drop 3 r)
          else if take 4 (c # r) = lit ''true'' then Some (JBool True, drop 3 r)
          else if take 5 (c # r) = lit ''false'' then Some (JBool False, drop 4 r)
          else scan_int (c # r))"
| "parse_elements [] cs acc = None"
| "parse_elements (u # fuel) cs acc =
     (case parse_value fuel cs of
        None \<Rightarrow> None
      | Some (v, r) \<Rightarrow>
          (case dropWhile json_ws r of
             [] \<Rightarrow> None
           | c # r' \<Rightarrow>
               if c = 44 then parse_elements fuel r' (acc @ [v])
               else if c = 93 then Some (JList (acc @ [v]), r')
               else None))"
| "parse_members [] cs acc = None"
| "parse_members (u # fuel) cs acc =
     (case dropWhile json_ws cs of
        [] \<Rightarrow> None
      | c # r \<Rightarrow>
          if c \<noteq> 34 then None
          else
            (case scan_string r of
               None \<Rightarrow> None
             | Some (k, r1) \<Rightarrow>
                 (case dropWhile json_ws r1 of
                    [] \<Rightarrow> None
                  | c1 # r2 \<Rightarrow>
                      if c1 \<noteq> 58 then None
                      else
                        (case parse_value fuel r2 of
                           None \<Rightarrow> None
                         | Some (v, r3) \<Rightarrow>
                             (case dropWhile json_ws r3 of
                                [] \<Rightarrow> None
                              | c3 # r4 \<Rightarrow>
                                  if c3 = 44 then parse_members fuel r4 (dict_set acc k v)
                                  else if c3 = 125 then Some (JDict (dict_set acc k v), r4)
                                  else None)))))"

definition mini_loads :: "str \<Rightarrow> json option" where
  "mini_loads s =
     (case parse_value (() # map (\<lambda>c. ()) s) s of
        None \<Rightarrow> None
      | Some (v, r) \<Rightarrow> if dropWhile json_ws r = [] then Some v else None)"

text \<open>\<open>repr\<close> of a \<open>str\<close> that has no quote, no backslash and only printable characters.\<close>

definition quote_repr :: "str \<Rightarrow> str" where
  "quote_repr s = [39] @ s @ [39]"

text \<open>
  Relative POSIX paths without \<open>~\<close>, as the list of their components: \<open>a/b/c\<close> is
  \<open>[a, b, c]\<close>, and the current directory is \<open>[]\<close>, printed as a dot.
\<close>

fun split_on :: "codepoint \<Rightarrow> str \<Rightarrow> str list" where
  "split_on d [] = [[]]"
| "split_on d (c # cs) =
     (if c = d then [] # split_on d cs
      else (case split_on d cs of [] \<Rightarrow> [[c]] | l # ls \<Rightarrow> (c # l) # ls))"

definition components :: "str \<Rightarrow> str list" where
  "components s = filter (\<lambda>c. c \<noteq> [] \<and> c \<noteq> lit ''.'') (split_on 47 s)"

definition relative_paths :: "(str list) pathlib" where
  "relative_paths =
     \<lparr>Path = components,
      expanduser = (\<lambda>p. p),
      parent = butlast,
      joinpath = (\<lambda>p s. p @ components s),
      path_str = (\<lambda>p. if p = [] then lit ''.'' else join (lit ''/'') p)\<rparr>"


text \<open>A run to try \<open>main\<close> on: one transcript \<open>logs/t.jsonl\<close> with a single record.\<close>

definition example_argv :: "str list" where
  "example_argv = [lit ''analyzer.py'', lit ''logs/t.jsonl'']"

definition example_world :: "(str list) world" where
  \<open>example_world =
     \<lparr>fs = [[lit ''logs'', lit ''t.jsonl''] \<mapsto> RegularFile (lit ''{"text":"hi"}\<newline>'')],
      stdout = []\<rparr>\<close>

definition example_summary :: str where
  "example_summary =
     lit ''# Analysis\<newline>\<newline>Total messages: 1\<newline>\<newline>User messages: 0\<newline>Character messages: 0\<newline>\<newline>## First message\<newline>hi\<newline>\<newline>## Last message\<newline>hi\<newline>''"

section \<open>Auxiliary facts\<close>

lemma load_loop_acc:
  "load_loop loads f acc =
     acc @ map (\<lambda>l. the (loads (strip l)))
             (filter (\<lambda>l. strip l \<noteq> [] \<and> loads (strip l) \<noteq> None) f)"
  by (induction f arbitrary: acc) (auto simp: Let_def split: option.splits)

lemma strip_blank: "strip l = [] \<longleftrightarrow> list_all isspace l"
proof
  assume "strip l = []"
  then have all: "\<forall>x\<in>set (dropWhile isspace l). isspace x"
    by (simp add: strip_def dropWhile_eq_Nil_conv)
  have "dropWhile isspace l = []"
  proof (rule ccontr)
    assume ne: "dropWhile isspace l \<noteq> []"
    then have "\<not> isspace (hd (dropWhile isspace l))" by (rule hd_dropWhile)
    moreover have "hd (dropWhile isspace l) \<in> set (dropWhile isspace l)" using ne by simp
    ultimately show False using all by blast
  qed
  then show "list_all isspace l" by (simp add: dropWhile_eq_Nil_conv list_all_iff)
next
  assume "list_all isspace l"
  then have d: "dropWhile isspace l = []" by (simp add: list_all_iff)
  show "strip l = []" unfolding strip_def d by simp
qed

lemma strip_padding:
  assumes "list_all isspace a" "list_all isspace b"
  shows "strip (a @ v @ b) = strip v"
proof (cases "list_all isspace v")
  case True
  then have "strip (a @ v @ b) = []" "strip v = []"
    using assms by (simp_all add: strip_blank)
  then show ?thesis by simp
next
  case False
  have "dropWhile isspace (a @ v @ b) = dropWhile isspace (v @ b)"
    using assms(1) by (simp add: list_all_iff dropWhile_append2)
  moreover have "dropWhile isspace (v @ b) = dropWhile isspace v @ b"
    using False by (auto simp: list_all_iff dropWhile_append1)
  moreover have "dropWhile isspace (rev b @ ys) = dropWhile isspace ys" for ys
    by (rule dropWhile_append2) (use assms(2) in \<open>auto simp: list_all_iff\<close>)
  ultimately show ?thesis by (simp add: strip_def)
qed

lemma dict_get_dict:
  "is_dict m \<Longrightarrow> dict_get m key dflt = Inr (case field m key of Some v \<Rightarrow> v | None \<Rightarrow> dflt)"
  by (cases m) auto

lemma dict_get_other: "\<not> is_dict m \<Longrightarrow> dict_get m key dflt = Inl AttributeError"
  by (cases m) auto

lemma count_role_dicts:
  "list_all is_dict ms \<Longrightarrow>
   count_role role ms = Inr (length (filter (\<lambda>m. field m (lit ''role'') = Some (JStr role)) ms))"
proof (induction ms)
  case Nil
  then show ?case by simp
next
  case (Cons m ms)
  then obtain kvs where m: "m = JDict kvs" by (cases m) auto
  show ?case using Cons by (simp add: m split: option.splits)
qed

lemma count_role_other:
  "\<not> list_all is_dict ms \<Longrightarrow> count_role role ms = Inl AttributeError"
proof (induction ms)
  case Nil
  then show ?case by simp
next
  case (Cons m ms)
  show ?case
  proof (cases "is_dict m")
    case True
    then obtain kvs where m: "m = JDict kvs" by (cases m) auto
    from True Cons show ?thesis by (simp add: m)
  next
    case False
    then show ?thesis by (simp add: dict_get_other del: dict_get.simps)
  qed
qed

lemma summarize_dicts:
  assumes "ms \<noteq> []" "list_all is_dict ms"
  shows "summarize repr_str ms =
    Inr (spec_template (length ms) (role_count (lit ''user'') ms) (role_count (lit ''char'') ms)
          (text_of repr_str (hd ms)) (text_of repr_str (last ms)))"
proof -
  have h: "is_dict (hd ms)" "is_dict (last ms)"
    using assms by (auto simp: list_all_iff)
  have t: "py_str repr_str (case field m (lit ''text'') of None \<Rightarrow> JStr [] | Some v \<Rightarrow> v)
           = text_of repr_str m" for m
    by (simp add: text_of_def py_str_def split: option.splits)
  have f: "dict_get (hd ms) (lit ''text'') (JStr []) = Inr (case field (hd ms) (lit ''text'') of None \<Rightarrow> JStr [] | Some v \<Rightarrow> v)"
    using dict_get_dict [OF h(1)] by (simp split: option.splits)
  have l: "dict_get (last ms) (lit ''text'') (JStr []) = Inr (case field (last ms) (lit ''text'') of None \<Rightarrow> JStr [] | Some v \<Rightarrow> v)"
    using dict_get_dict [OF h(2)] by (simp split: option.splits)
  have u: "count_role (lit ''user'') ms = Inr (role_count (lit ''user'') ms)"
    and c: "count_role (lit ''char'') ms = Inr (role_count (lit ''char'') ms)"
    using count_role_dicts [OF assms(2)] by (simp_all add: role_count_def)
  show ?thesis
    unfolding summarize_def Let_def f l u c
    using assms(1) t by (simp add: spec_template_def)
qed

lemma summarize_not_dicts:
  assumes "\<not> list_all is_dict ms"
  shows "summarize repr_str ms = Inl AttributeError"
proof -
  have ne: "ms \<noteq> []" using assms by auto
  have e: "dict_get m k d = Inl e \<Longrightarrow> e = AttributeError" for m k d e
    by (cases m) auto
  have u: "count_role (lit ''user'') ms = Inl AttributeError"
    using count_role_other [OF assms] by simp
  show ?thesis
    unfolding summarize_def Let_def u
    using ne by (auto split: sum.splits dest: e)
qed

lemma summarize_Inr_dicts: "summarize repr_str ms = Inr out \<Longrightarrow> list_all is_dict ms"
  using summarize_not_dicts [of ms repr_str] by auto




lemma concat_file_lines: "concat (file_lines s) = s"
  by (induction s) (auto split: list.splits)





lemma str_nat_small: "n < 10 \<Longrightarrow> str_nat n = [48 + n]"
  by (simp add: str_nat.simps [of n])

lemmas run_defs =
  mini_loads_def json_ws_def is_digit_def scan_int_def isspace_def strip_def quote_repr_def

section \<open>The loader\<close>



text \<open>
  Claim C10. The line is stripped before the test for a blank line and before parsing:
  a line made of a JSON text \<open>v\<close> (not empty, without white space at its ends, accepted by
  \<open>json.loads\<close>) between two runs of white space is stripped to \<open>v\<close> and adds the value
  of \<open>v\<close> to the result, at its place among the other lines.
\<close>

theorem padded_line_is_parsed:
  assumes "loads v = Some j" and "v \<noteq> []" and "strip v = v"
    and "list_all isspace a" and "list_all isspace b"
  shows "strip (a @ v @ b) = v \<and>
         load_loop loads (pre @ [a @ v @ b] @ post) [] =
         load_loop loads pre [] @ [j] @ load_loop loads post []"
proof -
  have s: "strip (a @ v @ b) = v"
    using strip_padding [OF assms(4,5), of v] assms(3) by simp
  show ?thesis
    using s assms(1,2) by (simp add: load_loop_acc)
qed

theorem padded_line_is_parsed_witness:
  \<open>mini_loads (lit ''{"a":1}'') = Some (JDict [(lit ''a'', JInt 1)]) \<and>
   lit ''{"a":1}'' \<noteq> [] \<and> strip (lit ''{"a":1}'') = lit ''{"a":1}'' \<and>
   list_all isspace [32, 9, 160] \<and> list_all isspace [32, 8195, 10] \<and>
   load_loop mini_loads ([lit ''x\<newline>''] @ [[32, 9, 160] @ lit ''{"a":1}'' @ [32, 8195, 10]] @ []) [] =
   load_loop mini_loads [lit ''x\<newline>''] [] @ [JDict [(lit ''a'', JInt 1)]] @ load_loop mini_loads [] []\<close>
  using padded_line_is_parsed
    [of mini_loads \<open>lit ''{"a":1}''\<close> \<open>JDict [(lit ''a'', JInt 1)]\<close> "[32, 9, 160]" "[32, 8195, 10]"
        \<open>[lit ''x\<newline>'']\<close> "[]"]
  by (simp add: run_defs)

section \<open>The summarizer\<close>

text \<open>
  Claim C5, as stated, fails: a line that parses as a JSON value that is not an object
  (here the number 5) makes \<open>summarize\<close> raise \<open>AttributeError\<close>, since it calls \<open>get\<close>
  on every record.
\<close>

theorem summarize_non_object_raises:
  \<open>load_messages mini_loads [0::nat \<mapsto> RegularFile (lit ''5\<newline>'')] 0 = Inr [JInt 5] \<and>
   summarize quote_repr [JInt 5] = Inl AttributeError\<close>
  by (simp add: load_messages_def open_r_def summarize_def run_defs)

text \<open>
  Claim C5, amended. When every parsed record is a JSON object, \<open>summarize\<close> returns a
  summary and raises nothing, whatever fields the objects have: a record without a
  field \<open>role\<close> is counted for neither role, and a record without a field \<open>text\<close> has
  the empty text. When some record is not an object, it raises \<open>AttributeError\<close>.
\<close>

theorem summarize_total_on_objects:
  "(list_all is_dict ms \<longrightarrow>
      summarize repr_str ms =
        Inr (if ms = [] then lit ''# Analysis\<newline>\<newline>No messages found.''
             else spec_template (length ms)
                    (role_count (lit ''user'') ms) (role_count (lit ''char'') ms)
                    (text_of repr_str (hd ms)) (text_of repr_str (last ms)))) \<and>
   (\<not> list_all is_dict ms \<longrightarrow> summarize repr_str ms = Inl AttributeError)"
proof (intro conjI impI)
  assume d: "list_all is_dict ms"
  show "summarize repr_str ms =
        Inr (if ms = [] then lit ''# Analysis\<newline>\<newline>No messages found.''
             else spec_template (length ms)
                    (role_count (lit ''user'') ms) (role_count (lit ''char'') ms)
                    (text_of repr_str (hd ms)) (text_of repr_str (last ms)))"
  proof (cases "ms = []")
    case True
    then show ?thesis by (simp add: summarize_def)
  next
    case False
    then show ?thesis using summarize_dicts [OF False d] by simp
  qed
next
  assume "\<not> list_all is_dict ms"
  then show "summarize repr_str ms = Inl AttributeError"
    by (rule summarize_not_dicts)
qed

theorem summarize_total_on_objects_witness:
  \<open>list_all is_dict [JDict [(lit ''name'', JInt 7)]] \<and>
   summarize quote_repr [JDict [(lit ''name'', JInt 7)]] =
   Inr (lit ''# Analysis\<newline>\<newline>Total messages: 1\<newline>\<newline>User messages: 0\<newline>Character messages: 0\<newline>\<newline>## First message\<newline>\<newline>\<newline>## Last message\<newline>\<newline>'') \<and>
   \<not> list_all is_dict [JDict [(lit ''text'', JStr (lit ''hi''))], JList [JInt 1, JInt 2]] \<and>
   summarize quote_repr [JDict [(lit ''text'', JStr (lit ''hi''))], JList [JInt 1, JInt 2]] =
   Inl AttributeError\<close>
  using summarize_total_on_objects [of \<open>[JDict [(lit ''name'', JInt 7)]]\<close> quote_repr]
    summarize_total_on_objects
      [of \<open>[JDict [(lit ''text'', JStr (lit ''hi''))], JList [JInt 1, JInt 2]]\<close> quote_repr]
  by (simp add: spec_template_def role_count_def text_of_def str_nat_small)

text \<open>
  Claim C3. The output of \<open>summarize\<close> is the template of section 4.3 of the
  specification, character for character: when no line of the file parses (every line
  is blank or rejected) it is exactly the three lines of the empty template, without a
  final newline; for a transcript that is not empty, every output of \<open>summarize\<close> is
  the non-empty template filled with the number of records, the two counts and the two
  texts, each line ended by a newline. There is such an output whenever the records are
  JSON objects, the records of the specification's data model.
\<close>

theorem summarize_follows_template:
  "(list_all (\<lambda>l. strip l = [] \<or> loads (strip l) = None) f \<longrightarrow>
      summarize repr_str (load_loop loads f []) =
        Inr (lit ''# Analysis\<newline>\<newline>No messages found.'')) \<and>
   lit ''# Analysis\<newline>\<newline>No messages found.'' = spec_empty \<and>
   (ms \<noteq> [] \<and> summarize repr_str ms = Inr out \<longrightarrow>
      out = spec_template (length ms)
              (role_count (lit ''user'') ms) (role_count (lit ''char'') ms)
              (text_of repr_str (hd ms)) (text_of repr_str (last ms))) \<and>
   (ms \<noteq> [] \<and> list_all is_dict ms \<longrightarrow> (\<exists>out'. summarize repr_str ms = Inr out'))"
proof -
  have "load_loop loads f [] = []"
    if "list_all (\<lambda>l. strip l = [] \<or> loads (strip l) = None) f"
    using that by (auto simp: load_loop_acc list_all_iff filter_empty_conv)
  moreover have "out = spec_template (length ms)
              (role_count (lit ''user'') ms) (role_count (lit ''char'') ms)
              (text_of repr_str (hd ms)) (text_of repr_str (last ms))"
    if "ms \<noteq> []" "summarize repr_str ms = Inr out"
    using summarize_dicts [OF that(1) summarize_Inr_dicts [OF that(2)], of repr_str] that(2)
    by simp
  ultimately show ?thesis
    using summarize_dicts [of ms repr_str]
    by (simp add: summarize_def spec_empty_def)
qed

theorem summarize_follows_template_witness:
  \<open>list_all (\<lambda>l. strip l = [] \<or> mini_loads (strip l) = None) [lit '' \<newline>'', lit ''not json\<newline>''] \<and>
   summarize quote_repr (load_loop mini_loads [lit '' \<newline>'', lit ''not json\<newline>''] []) =
     Inr (lit ''# Analysis\<newline>\<newline>No messages found.'') \<and>
   list_all is_dict [JDict [(lit ''text'', JStr (lit ''hi''))]] \<and>
   summarize quote_repr [JDict [(lit ''text'', JStr (lit ''hi''))]] = Inr example_summary \<and>
   example_summary = spec_template 1 0 0 (lit ''hi'') (lit ''hi'')\<close>
proof -
  have s: \<open>summarize quote_repr [JDict [(lit ''text'', JStr (lit ''hi''))]] = Inr example_summary\<close>
    by (simp add: summarize_def example_summary_def py_str_def str_nat_small)
  have b: \<open>list_all (\<lambda>l. strip l = [] \<or> mini_loads (strip l) = None) [lit '' \<newline>'', lit ''not json\<newline>'']\<close>
    by (simp add: run_defs)
  show ?thesis
    using s b summarize_follows_template
      [of mini_loads \<open>[lit '' \<newline>'', lit ''not json\<newline>'']\<close> quote_repr
          \<open>[JDict [(lit ''text'', JStr (lit ''hi''))]]\<close> example_summary]
    by (simp add: role_count_def text_of_def py_str_def)
qed



section \<open>Loader and summarizer together\<close>




text \<open>
  Claim C8. The scenario of the specification: a file with the lines
  \<open>{"role":"user","text":"hi"}\<close>, \<open>{"role":"char","text":"hello"}\<close>, an empty line,
  \<open>not json\<close> and \<open>{"role":"user","text":"bye"}\<close>. Given what \<open>json.loads\<close> answers on
  the four lines that are not blank, three records are loaded and the summary is the
  template with total 3, user count 2, character count 1, first text \<open>hi\<close> and last
  text \<open>bye\<close>.
\<close>

theorem scenario_five_lines:
  assumes \<open>loads (lit ''{"role":"user","text":"hi"}'') =
             Some (JDict [(lit ''role'', JStr (lit ''user'')), (lit ''text'', JStr (lit ''hi''))])\<close>
    and \<open>loads (lit ''{"role":"char","text":"hello"}'') =
             Some (JDict [(lit ''role'', JStr (lit ''char'')), (lit ''text'', JStr (lit ''hello''))])\<close>
    and \<open>loads (lit ''not json'') = None\<close>
    and \<open>loads (lit ''{"role":"user","text":"bye"}'') =
             Some (JDict [(lit ''role'', JStr (lit ''user'')), (lit ''text'', JStr (lit ''bye''))])\<close>
    and \<open>files p = Some (RegularFile (lit
           ''{"role":"user","text":"hi"}\<newline>{"role":"char","text":"hello"}\<newline>\<newline>not json\<newline>{"role":"user","text":"bye"}\<newline>''))\<close>
  shows \<open>\<exists>ms. load_messages loads files p = Inr ms \<and> length ms = 3 \<and>
           summarize repr_str ms = Inr (spec_template 3 2 1 (lit ''hi'') (lit ''bye'')) \<and>
           spec_template 3 2 1 (lit ''hi'') (lit ''bye'') =
             lit ''# Analysis\<newline>\<newline>Total messages: 3\<newline>\<newline>User messages: 2\<newline>Character messages: 1\<newline>\<newline>## First message\<newline>hi\<newline>\<newline>## Last message\<newline>bye\<newline>''\<close>
proof -
  have l: \<open>load_messages loads files p =
     Inr [JDict [(lit ''role'', JStr (lit ''user'')), (lit ''text'', JStr (lit ''hi''))],
          JDict [(lit ''role'', JStr (lit ''char'')), (lit ''text'', JStr (lit ''hello''))],
          JDict [(lit ''role'', JStr (lit ''user'')), (lit ''text'', JStr (lit ''bye''))]]\<close>
    using assms by (simp add: load_messages_def open_r_def strip_def isspace_def)
  have s: \<open>summarize repr_str
     [JDict [(lit ''role'', JStr (lit ''user'')), (lit ''text'', JStr (lit ''hi''))],
      JDict [(lit ''role'', JStr (lit ''char'')), (lit ''text'', JStr (lit ''hello''))],
      JDict [(lit ''role'', JStr (lit ''user'')), (lit ''text'', JStr (lit ''bye''))]] =
     Inr (spec_template 3 2 1 (lit ''hi'') (lit ''bye''))\<close>
    by (simp add: summarize_def spec_template_def py_str_def str_nat_small)
  have t: \<open>spec_template 3 2 1 (lit ''hi'') (lit ''bye'') =
             lit ''# Analysis\<newline>\<newline>Total messages: 3\<newline>\<newline>User messages: 2\<newline>Character messages: 1\<newline>\<newline>## First message\<newline>hi\<newline>\<newline>## Last message\<newline>bye\<newline>''\<close>
    by (simp add: spec_template_def str_nat_small)
  show ?thesis
    unfolding l using s t by simp
qed

theorem scenario_five_lines_witness:
  \<open>mini_loads (lit ''{"role":"user","text":"hi"}'') =
     Some (JDict [(lit ''role'', JStr (lit ''user'')), (lit ''text'', JStr (lit ''hi''))]) \<and>
   mini_loads (lit ''{"role":"char","text":"hello"}'') =
     Some (JDict [(lit ''role'', JStr (lit ''char'')), (lit ''text'', JStr (lit ''hello''))]) \<and>
   mini_loads (lit ''not json'') = None \<and>
   mini_loads (lit ''{"role":"user","text":"bye"}'') =
     Some (JDict [(lit ''role'', JStr (lit ''user'')), (lit ''text'', JStr (lit ''bye''))]) \<and>
   (\<exists>ms. load_messages mini_loads
           [0::nat \<mapsto> RegularFile (lit
             ''{"role":"user","text":"hi"}\<newline>{"role":"char","text":"hello"}\<newline>\<newline>not json\<newline>{"role":"user","text":"bye"}\<newline>'')] 0 = Inr ms \<and>
         length ms = 3 \<and>
         summarize quote_repr ms =
           Inr (lit ''# Analysis\<newline>\<newline>Total messages: 3\<newline>\<newline>User messages: 2\<newline>Character messages: 1\<newline>\<newline>## First message\<newline>hi\<newline>\<newline>## Last message\<newline>bye\<newline>''))\<close>
proof -
  have a: \<open>mini_loads (lit ''{"role":"user","text":"hi"}'') =
     Some (JDict [(lit ''role'', JStr (lit ''user'')), (lit ''text'', JStr (lit ''hi''))])\<close>
    by (simp add: run_defs)
  have b: \<open>mini_loads (lit ''{"role":"char","text":"hello"}'') =
     Some (JDict [(lit ''role'', JStr (lit ''char'')), (lit ''text'', JStr (lit ''hello''))])\<close>
    by (simp add: run_defs)
  have c: \<open>mini_loads (lit ''not json'') = None\<close>
    by (simp add: run_defs)
  have d: \<open>mini_loads (lit ''{"role":"user","text":"bye"}'') =
     Some (JDict [(lit ''role'', JStr (lit ''user'')), (lit ''text'', JStr (lit ''bye''))])\<close>
    by (simp add: run_defs)
  have e: \<open>[0::nat \<mapsto> RegularFile (lit
             ''{"role":"user","text":"hi"}\<newline>{"role":"char","text":"hello"}\<newline>\<newline>not json\<newline>{"role":"user","text":"bye"}\<newline>'')] 0 =
     Some (RegularFile (lit
             ''{"role":"user","text":"hi"}\<newline>{"role":"char","text":"hello"}\<newline>\<newline>not json\<newline>{"role":"user","text":"bye"}\<newline>''))\<close>
    by simp
  from scenario_five_lines
    [of mini_loads
        \<open>[0::nat \<mapsto> RegularFile (lit
             ''{"role":"user","text":"hi"}\<newline>{"role":"char","text":"hello"}\<newline>\<newline>not json\<newline>{"role":"user","text":"bye"}\<newline>'')]\<close>
        0 quote_repr, OF a b c d e]
  obtain ms where \<open>load_messages mini_loads
           [0::nat \<mapsto> RegularFile (lit
             ''{"role":"user","text":"hi"}\<newline>{"role":"char","text":"hello"}\<newline>\<newline>not json\<newline>{"role":"user","text":"bye"}\<newline>'')] 0 = Inr ms\<close>
     \<open>length ms = 3\<close>
     \<open>summarize quote_repr ms = Inr (spec_template 3 2 1 (lit ''hi'') (lit ''bye''))\<close>
     \<open>spec_template 3 2 1 (lit ''hi'') (lit ''bye'') =
             lit ''# Analysis\<newline>\<newline>Total messages: 3\<newline>\<newline>User messages: 2\<newline>Character messages: 1\<newline>\<newline>## First message\<newline>hi\<newline>\<newline>## Last message\<newline>bye\<newline>''\<close>
    by blast
  then show ?thesis using a b c d by auto
qed

section \<open>The command line\<close>

lemmas main_defs =
  main_def load_messages_def open_r_def write_text_def exists_def print_def Let_def

lemma main_success:
  assumes "2 \<le> length argv"
    and "jsonl_path = expanduser pl (Path pl (argv ! 1))"
    and "summary_path = joinpath pl (parent pl jsonl_path) (lit ''summary.md'')"
    and "fs w jsonl_path = Some (RegularFile content)"
    and "summarize repr_str (load_loop loads (file_lines content) []) = Inr summary"
    and "fs w summary_path \<noteq> Some Directory"
    and "utf8_encodable summary"
  shows "main pl loads repr_str argv w =
         (Exit 0,
          w\<lparr>fs := (fs w)(summary_path \<mapsto> RegularFile summary),
            stdout := stdout w @ lit ''Wrote summary to '' @ path_str pl summary_path @ [10]\<rparr>)"
  using assms
  by (auto simp: main_defs split: option.splits node.splits)

lemma main_exit_0:
  assumes "main pl loads repr_str argv w = (Exit 0, w')"
    and "jsonl_path = expanduser pl (Path pl (argv ! 1))"
    and "summary_path = joinpath pl (parent pl jsonl_path) (lit ''summary.md'')"
  shows "\<exists>content summary.
           2 \<le> length argv \<and>
           fs w jsonl_path = Some (RegularFile content) \<and>
           summarize repr_str (load_loop loads (file_lines content) []) = Inr summary \<and>
           fs w summary_path \<noteq> Some Directory \<and>
           utf8_encodable summary \<and>
           w' = w\<lparr>fs := (fs w)(summary_path \<mapsto> RegularFile summary),
                  stdout := stdout w @ lit ''Wrote summary to '' @ path_str pl summary_path @ [10]\<rparr>"
  using assms
  by (auto simp: main_defs split: if_splits option.splits node.splits sum.splits)

lemma example_run:
  "main relative_paths mini_loads quote_repr example_argv example_world =
     (Exit 0,
      example_world
        \<lparr>fs := (fs example_world)([lit ''logs'', lit ''summary.md''] \<mapsto> RegularFile example_summary),
         stdout := lit ''Wrote summary to logs/summary.md\<newline>''\<rparr>)"
  by (simp add: main_defs example_argv_def example_world_def example_summary_def
        relative_paths_def components_def run_defs summarize_def py_str_def str_nat_small
        utf8_encodable_def)

lemma example_run_again:
  "main relative_paths mini_loads quote_repr example_argv
     (example_world\<lparr>fs := (fs example_world)([lit ''logs'', lit ''summary.md''] \<mapsto> RegularFile (lit ''old'')),
                    stdout := lit ''before\<newline>''\<rparr>) =
     (Exit 0,
      example_world
        \<lparr>fs := (fs example_world)([lit ''logs'', lit ''summary.md''] \<mapsto> RegularFile example_summary),
         stdout := lit ''before\<newline>Wrote summary to logs/summary.md\<newline>''\<rparr>)"
  by (simp add: main_defs example_argv_def example_world_def example_summary_def
        relative_paths_def components_def run_defs summarize_def py_str_def str_nat_small
        utf8_encodable_def)

lemma example_paths:
  "expanduser relative_paths (Path relative_paths (example_argv ! 1)) = [lit ''logs'', lit ''t.jsonl'']"
  "joinpath relative_paths (parent relative_paths [lit ''logs'', lit ''t.jsonl'']) (lit ''summary.md'') =
     [lit ''logs'', lit ''summary.md'']"
  by (simp_all add: example_argv_def relative_paths_def components_def)

text \<open>
  Claim C6. Without an argument \<open>main\<close> prints the usage line and exits with status 1;
  with an argument whose path does not exist it prints \<open>File not found:\<close> and the path
  and exits with status 2; in both cases the file system is left as it was. When the path
  is a regular file, the summarizer returns a summary and the summary can be written,
  it exits with status 0.
\<close>

theorem main_exit_codes:
  assumes "jsonl_path = expanduser pl (Path pl (argv ! 1))"
    and "summary_path = joinpath pl (parent pl jsonl_path) (lit ''summary.md'')"
  shows "(length argv < 2 \<longrightarrow>
            main pl loads repr_str argv w =
              (Exit 1,
               w\<lparr>stdout := stdout w @ lit ''Usage: python analyzer.py <transcript.jsonl>'' @ [10]\<rparr>)) \<and>
         (2 \<le> length argv \<and> fs w jsonl_path = None \<longrightarrow>
            main pl loads repr_str argv w =
              (Exit 2,
               w\<lparr>stdout := stdout w @ lit ''File not found: '' @ path_str pl jsonl_path @ [10]\<rparr>)) \<and>
         (2 \<le> length argv \<and> fs w jsonl_path = Some (RegularFile content) \<and>
          summarize repr_str (load_loop loads (file_lines content) []) = Inr summary \<and>
          fs w summary_path \<noteq> Some Directory \<and> utf8_encodable summary \<longrightarrow>
            fst (main pl loads repr_str argv w) = Exit 0)"
proof (intro conjI impI)
  assume "length argv < 2"
  then show "main pl loads repr_str argv w =
              (Exit 1,
               w\<lparr>stdout := stdout w @ lit ''Usage: python analyzer.py <transcript.jsonl>'' @ [10]\<rparr>)"
    by (simp add: main_def print_def)
next
  assume "2 \<le> length argv \<and> fs w jsonl_path = None"
  then show "main pl loads repr_str argv w =
              (Exit 2,
               w\<lparr>stdout := stdout w @ lit ''File not found: '' @ path_str pl jsonl_path @ [10]\<rparr>)"
    using assms(1) by (simp add: main_def print_def exists_def)
next
  assume "2 \<le> length argv \<and> fs w jsonl_path = Some (RegularFile content) \<and>
          summarize repr_str (load_loop loads (file_lines content) []) = Inr summary \<and>
          fs w summary_path \<noteq> Some Directory \<and> utf8_encodable summary"
  then show "fst (main pl loads repr_str argv w) = Exit 0"
    using main_success [OF _ assms, of w content repr_str loads summary] by simp
qed

theorem main_exit_codes_witness:
  \<open>length [lit ''analyzer.py''] < 2 \<and>
   main relative_paths mini_loads quote_repr [lit ''analyzer.py''] example_world =
     (Exit 1,
      example_world\<lparr>stdout := lit ''Usage: python analyzer.py <transcript.jsonl>\<newline>''\<rparr>) \<and>
   2 \<le> length [lit ''analyzer.py'', lit ''logs/none.jsonl''] \<and>
   fs example_world [lit ''logs'', lit ''none.jsonl''] = None \<and>
   main relative_paths mini_loads quote_repr [lit ''analyzer.py'', lit ''logs/none.jsonl'']
       example_world =
     (Exit 2, example_world\<lparr>stdout := lit ''File not found: logs/none.jsonl\<newline>''\<rparr>) \<and>
   2 \<le> length example_argv \<and>
   fs example_world [lit ''logs'', lit ''t.jsonl''] = Some (RegularFile (lit ''{"text":"hi"}\<newline>'')) \<and>
   fst (main relative_paths mini_loads quote_repr example_argv example_world) = Exit 0\<close>
proof -
  have p: "expanduser relative_paths
             (Path relative_paths ([lit ''analyzer.py'', lit ''logs/none.jsonl''] ! 1)) =
           [lit ''logs'', lit ''none.jsonl'']"
    by (simp add: relative_paths_def components_def)
  have s: \<open>summarize quote_repr (load_loop mini_loads (file_lines (lit ''{"text":"hi"}\<newline>'')) []) =
           Inr example_summary\<close>
    by (simp add: example_summary_def run_defs summarize_def py_str_def str_nat_small)
  have u: "utf8_encodable example_summary"
    by (simp add: example_summary_def utf8_encodable_def)
  have e: \<open>fs example_world [lit ''logs'', lit ''t.jsonl''] = Some (RegularFile (lit ''{"text":"hi"}\<newline>''))\<close>
    "fs example_world [lit ''logs'', lit ''none.jsonl''] = None"
    "fs example_world [lit ''logs'', lit ''summary.md''] \<noteq> Some Directory"
    "stdout example_world = []"
    by (simp_all add: example_world_def)
  have n: "length [lit ''analyzer.py''] < 2" "2 \<le> length [lit ''analyzer.py'', lit ''logs/none.jsonl'']"
    "2 \<le> length example_argv"
    by (simp_all add: example_argv_def)
  note a = main_exit_codes [OF refl refl, of "[lit ''analyzer.py'']" relative_paths mini_loads quote_repr example_world]
  note b = main_exit_codes [OF refl refl, of "[lit ''analyzer.py'', lit ''logs/none.jsonl'']" relative_paths mini_loads quote_repr example_world]
  note c = main_exit_codes [OF refl refl, of example_argv relative_paths mini_loads quote_repr example_world
      \<open>lit ''{"text":"hi"}\<newline>''\<close> example_summary]
  from a n(1) have 1: "main relative_paths mini_loads quote_repr [lit ''analyzer.py''] example_world =
     (Exit 1,
      example_world\<lparr>stdout := lit ''Usage: python analyzer.py <transcript.jsonl>\<newline>''\<rparr>)"
    using e(4) by simp
  from b n(2) e(2) have 2: "main relative_paths mini_loads quote_repr [lit ''analyzer.py'', lit ''logs/none.jsonl'']
       example_world =
     (Exit 2, example_world\<lparr>stdout := lit ''File not found: logs/none.jsonl\<newline>''\<rparr>)"
    unfolding p using e(4) by (simp add: relative_paths_def)
  from c n(3) e(1,3) s u have 3: "fst (main relative_paths mini_loads quote_repr example_argv example_world) = Exit 0"
    unfolding example_paths by simp
  show ?thesis using 1 2 3 n e by simp
qed

text \<open>
  Claim C7. A run that exits with status 0 has read a regular file at the given path,
  and leaves the file system changed at one place only: \<open>summary.md\<close> in the directory
  of the input now holds the summary of that file, whatever was there before. It has
  printed one line, \<open>Wrote summary to\<close> and the path of the summary.
\<close>

theorem main_writes_summary:
  assumes "main pl loads repr_str argv w = (Exit 0, w')"
    and "jsonl_path = expanduser pl (Path pl (argv ! 1))"
    and "summary_path = joinpath pl (parent pl jsonl_path) (lit ''summary.md'')"
  shows "\<exists>content summary.
           fs w jsonl_path = Some (RegularFile content) \<and>
           summarize repr_str (load_loop loads (file_lines content) []) = Inr summary \<and>
           utf8_encodable summary \<and>
           fs w' = (fs w)(summary_path \<mapsto> RegularFile summary) \<and>
           stdout w' = stdout w @ lit ''Wrote summary to '' @ path_str pl summary_path @ [10]"
proof -
  from main_exit_0 [OF assms] obtain content summary where
    "fs w jsonl_path = Some (RegularFile content)"
    "summarize repr_str (load_loop loads (file_lines content) []) = Inr summary"
    "utf8_encodable summary"
    "w' = w\<lparr>fs := (fs w)(summary_path \<mapsto> RegularFile summary),
            stdout := stdout w @ lit ''Wrote summary to '' @ path_str pl summary_path @ [10]\<rparr>"
    by blast
  then show ?thesis by simp
qed

theorem main_writes_summary_witness:
  "main relative_paths mini_loads quote_repr example_argv example_world =
     (Exit 0,
      example_world
        \<lparr>fs := (fs example_world)([lit ''logs'', lit ''summary.md''] \<mapsto> RegularFile example_summary),
         stdout := lit ''Wrote summary to logs/summary.md\<newline>''\<rparr>) \<and>
   (\<exists>content summary.
      fs example_world [lit ''logs'', lit ''t.jsonl''] = Some (RegularFile content) \<and>
      summarize quote_repr (load_loop mini_loads (file_lines content) []) = Inr summary \<and>
      utf8_encodable summary \<and>
      (fs example_world)([lit ''logs'', lit ''summary.md''] \<mapsto> RegularFile example_summary) =
        (fs example_world)([lit ''logs'', lit ''summary.md''] \<mapsto> RegularFile summary))"
  using example_run main_writes_summary [OF example_run refl refl]
  unfolding example_paths by auto

text \<open>
  Claim C9. After a run that exits with status 0 and has left the input file as it was,
  a second run with the same arguments exits with status 0 too and writes the same
  content to \<open>summary.md\<close>: the file system after the second run is the one after the
  first. More generally the content written depends on the input file only: a run in
  any other world where the input file is the same, if it exits with status 0, leaves
  the same \<open>summary.md\<close>.
\<close>

theorem main_twice_same_summary:
  assumes "main pl loads repr_str argv w = (Exit 0, w1)"
    and "jsonl_path = expanduser pl (Path pl (argv ! 1))"
    and "summary_path = joinpath pl (parent pl jsonl_path) (lit ''summary.md'')"
  shows "(fs w1 jsonl_path = fs w jsonl_path \<longrightarrow>
            (\<exists>w2. main pl loads repr_str argv w1 = (Exit 0, w2) \<and>
                  fs w2 summary_path = fs w1 summary_path \<and> fs w2 = fs w1)) \<and>
         (fs wa jsonl_path = fs w jsonl_path \<and> main pl loads repr_str argv wa = (Exit 0, wb) \<longrightarrow>
            fs wb summary_path = fs w1 summary_path)"
proof (intro conjI impI)
  from main_exit_0 [OF assms(1-3)] obtain content summary where
    a: "2 \<le> length argv"
    and c: "fs w jsonl_path = Some (RegularFile content)"
    and s: "summarize repr_str (load_loop loads (file_lines content) []) = Inr summary"
    and u: "utf8_encodable summary"
    and w1: "w1 = w\<lparr>fs := (fs w)(summary_path \<mapsto> RegularFile summary),
            stdout := stdout w @ lit ''Wrote summary to '' @ path_str pl summary_path @ [10]\<rparr>"
    by blast
  have t1: "fs w1 summary_path = Some (RegularFile summary)"
    by (simp add: w1)
  {
    assume same: "fs w1 jsonl_path = fs w jsonl_path"
    have c1: "fs w1 jsonl_path = Some (RegularFile content)"
      using same c by simp
    have d1: "fs w1 summary_path \<noteq> Some Directory" using t1 by simp
    have "(fs w1)(summary_path \<mapsto> RegularFile summary) = fs w1"
      using t1 by (rule map_upd_triv)
    then show "\<exists>w2. main pl loads repr_str argv w1 = (Exit 0, w2) \<and>
                  fs w2 summary_path = fs w1 summary_path \<and> fs w2 = fs w1"
      using main_success [OF a assms(2,3) c1 s d1 u] by simp
  }
  {
    assume other: "fs wa jsonl_path = fs w jsonl_path \<and> main pl loads repr_str argv wa = (Exit 0, wb)"
    then have run: "main pl loads repr_str argv wa = (Exit 0, wb)" by simp
    from main_exit_0 [OF run assms(2,3)] obtain content' summary' where
      c': "fs wa jsonl_path = Some (RegularFile content')"
      and s': "summarize repr_str (load_loop loads (file_lines content') []) = Inr summary'"
      and wb: "wb = wa\<lparr>fs := (fs wa)(summary_path \<mapsto> RegularFile summary'),
            stdout := stdout wa @ lit ''Wrote summary to '' @ path_str pl summary_path @ [10]\<rparr>"
      by blast
    have "content' = content" using c c' other by simp
    then have "summary' = summary" using s s' by simp
    then show "fs wb summary_path = fs w1 summary_path"
      using t1 by (simp add: wb)
  }
qed

theorem main_twice_same_summary_witness:
  "main relative_paths mini_loads quote_repr example_argv example_world =
     (Exit 0,
      example_world
        \<lparr>fs := (fs example_world)([lit ''logs'', lit ''summary.md''] \<mapsto> RegularFile example_summary),
         stdout := lit ''Wrote summary to logs/summary.md\<newline>''\<rparr>) \<and>
   (\<exists>w2. main relative_paths mini_loads quote_repr example_argv
            (example_world
               \<lparr>fs := (fs example_world)([lit ''logs'', lit ''summary.md''] \<mapsto> RegularFile example_summary),
                stdout := lit ''Wrote summary to logs/summary.md\<newline>''\<rparr>) = (Exit 0, w2) \<and>
         fs w2 [lit ''logs'', lit ''summary.md''] = Some (RegularFile example_summary)) \<and>
   fs (example_world
         \<lparr>fs := (fs example_world)([lit ''logs'', lit ''summary.md''] \<mapsto> RegularFile example_summary),
          stdout := lit ''before\<newline>Wrote summary to logs/summary.md\<newline>''\<rparr>)
      [lit ''logs'', lit ''summary.md''] = Some (RegularFile example_summary)"
proof -
  note t = main_twice_same_summary [OF example_run refl refl,
      of "example_world\<lparr>fs := (fs example_world)([lit ''logs'', lit ''summary.md''] \<mapsto> RegularFile (lit ''old'')),
                    stdout := lit ''before\<newline>''\<rparr>"
         "example_world
        \<lparr>fs := (fs example_world)([lit ''logs'', lit ''summary.md''] \<mapsto> RegularFile example_summary),
         stdout := lit ''before\<newline>Wrote summary to logs/summary.md\<newline>''\<rparr>"]
  show ?thesis
    using example_run example_run_again t
    unfolding example_paths by auto
qed

end
